theory Spec2Isabelle
  imports Complex_Main "HOL-Library.Word" "HOL-Library.Sublist"
begin

unbundle bit_operations_syntax

section \<open>Python exceptions as values\<close>

text \<open>
  Every \<^verbatim>\<open>raise\<close> that the modelled code can reach is a value \<open>Inl e\<close> of a sum type;
  \<open>Inr v\<close> is a normal return.  \<open>RequestException\<close> stands for the transport errors of
  the HTTP client (timeout, connection refused), \<open>ModelError\<close> for whatever a model
  object raises from its own prediction routine.
\<close>

datatype py_error =
  AttributeError | TypeError | ValueError | IndexError
  | JSONDecodeError | RequestException | ModelError

definition andthen :: "py_error + 'a \<Rightarrow> ('a \<Rightarrow> py_error + 'b) \<Rightarrow> py_error + 'b" where
  "andthen m f = (case m of Inl e \<Rightarrow> Inl e | Inr v \<Rightarrow> f v)"

text \<open>\<^verbatim>\<open>xs[i]\<close> for a non-negative index: out of range raises IndexError.\<close>

definition py_index :: "'a list \<Rightarrow> nat \<Rightarrow> py_error + 'a" where
  "py_index xs i = (if i < length xs then Inr (xs ! i) else Inl IndexError)"

section \<open>ids_service/inference.py\<close>

subsection \<open>Feature dictionaries and the single-row frame\<close>

text \<open>
  A feature dictionary maps names to values; Python keeps the insertion order, which
  becomes the column order of \<^verbatim>\<open>pd.DataFrame([features])\<close>.  A value is either a finite
  number or \<open>Malformed\<close>: a value on which \<^verbatim>\<open>StandardScaler.fit_transform\<close> raises
  ValueError (a non-numeric string, an infinity, a nested sequence).  Floating point
  numbers are modelled as reals; NaN is outside the model.
\<close>

datatype fval = Finite real | Malformed

type_synonym features = "(string \<times> fval) list"

definition single_row_frame :: "features \<Rightarrow> fval list list" where
  "single_row_frame features = [map snd features]"

subsection \<open>StandardScaler\<close>

text \<open>
  scikit-learn's StandardScaler as documented: the input is validated (at least one
  column, every entry a finite number), then every column is centred on its mean and
  divided by its population standard deviation; a column of zero variance keeps the
  scale 1.
\<close>

fun check_row :: "fval list \<Rightarrow> py_error + real list" where
  "check_row [] = Inr []"
| "check_row (Malformed # vs) = Inl ValueError"
| "check_row (Finite x # vs) = andthen (check_row vs) (\<lambda>xs. Inr (x # xs))"

fun check_array :: "fval list list \<Rightarrow> py_error + real list list" where
  "check_array [] = Inr []"
| "check_array (r # rs) =
     (if r = [] then Inl ValueError
      else andthen (check_row r) (\<lambda>xs. andthen (check_array rs) (\<lambda>xss. Inr (xs # xss))))"

definition column :: "real list list \<Rightarrow> nat \<Rightarrow> real list" where
  "column X j = map (\<lambda>r. r ! j) X"

definition scaler_mean :: "real list \<Rightarrow> real" where
  "scaler_mean xs = sum_list xs / real (length xs)"

definition scaler_var :: "real list \<Rightarrow> real" where
  "scaler_var xs = sum_list (map (\<lambda>x. (x - scaler_mean xs)\<^sup>2) xs) / real (length xs)"

definition scaler_scale :: "real list \<Rightarrow> real" where
  "scaler_scale xs = (if scaler_var xs = 0 then 1 else sqrt (scaler_var xs))"

definition transform :: "real list list \<Rightarrow> real list list" where
  "transform X =
     map (\<lambda>r. map (\<lambda>j. (r ! j - scaler_mean (column X j)) / scaler_scale (column X j)) [0..<length r]) X"

definition fit_transform :: "fval list list \<Rightarrow> py_error + real list list" where
  "fit_transform frame = andthen (check_array frame) (\<lambda>X. Inr (transform X))"

subsection \<open>Models\<close>

text \<open>
  The model argument is any Python object.  What the code asks of it is whether it has
  a \<^verbatim>\<open>predict_proba\<close> attribute, and otherwise its \<^verbatim>\<open>predict\<close>; an object with neither
  (\<^verbatim>\<open>None\<close>, a model that failed to load) is \<open>NoModel\<close>.  Either routine receives the
  normalized array and returns an array or raises.
\<close>

datatype model =
  NoModel
  | WithProba "real list list \<Rightarrow> py_error + real list list"
  | PredictOnly "real list list \<Rightarrow> py_error + real list"

text \<open>Lines 24-29 of both functions: the anomaly score read off the model.\<close>

definition model_score :: "model \<Rightarrow> real list list \<Rightarrow> py_error + real" where
  "model_score model normalized_features =
     (case model of
        WithProba predict_proba \<Rightarrow>
          andthen (predict_proba normalized_features) (\<lambda>probabilities.
          andthen (py_index probabilities 0) (\<lambda>row.
            if length row > 1 then py_index row 1 else py_index row 0))
      | PredictOnly predict \<Rightarrow>
          andthen (predict normalized_features) (\<lambda>ys. py_index ys 0)
      | NoModel \<Rightarrow> Inl AttributeError)"

subsection \<open>predict_handshake and predict_file\<close>

text \<open>The body of the \<^verbatim>\<open>try\<close> block, and the function with its \<^verbatim>\<open>except Exception\<close>.\<close>

definition handshake_try :: "features \<Rightarrow> model \<Rightarrow> py_error + (real \<times> string)" where
  "handshake_try features model =
     (let feature_df = single_row_frame features in
      andthen (fit_transform feature_df) (\<lambda>normalized_features.
      andthen (model_score model normalized_features) (\<lambda>anomaly_score.
        let threshold = 1/2;
            verdict = (if anomaly_score > threshold then ''suspicious'' else ''normal'')
        in Inr (anomaly_score, verdict))))"

definition predict_handshake :: "features \<Rightarrow> model \<Rightarrow> real \<times> string" where
  "predict_handshake features model =
     (case handshake_try features model of
        Inr r \<Rightarrow> r
      | Inl e \<Rightarrow> (1/10, ''normal''))"

definition file_try :: "features \<Rightarrow> model \<Rightarrow> py_error + (real \<times> string)" where
  "file_try features model =
     (let feature_df = single_row_frame features in
      andthen (fit_transform feature_df) (\<lambda>normalized_features.
      andthen (model_score model normalized_features) (\<lambda>anomaly_score.
        let threshold = 4/10;
            verdict = (if anomaly_score > threshold then ''suspicious'' else ''normal'')
        in Inr (anomaly_score, verdict))))"

definition predict_file :: "features \<Rightarrow> model \<Rightarrow> real \<times> string" where
  "predict_file features model =
     (case file_try features model of
        Inr r \<Rightarrow> r
      | Inl e \<Rightarrow> (1/10, ''normal''))"

section \<open>JSON values, HTTP exchanges and byte streams\<close>

subsection \<open>Decoded JSON and the Python operations the scripts apply to it\<close>

text \<open>
  The value \<^verbatim>\<open>response.json()\<close> returns: \<open>JNull\<close> is \<^verbatim>\<open>None\<close>, \<open>JObj\<close> is a
  \<^verbatim>\<open>dict\<close> given by its items (the decoder keeps one value per key).  Numbers are
  reals.
\<close>

datatype json =
  JNull | JBool bool | JNum real | JStr string
  | JArr "json list" | JObj "(string \<times> json) list"

text \<open>Truth value of an object in \<^verbatim>\<open>if x\<close> and \<^verbatim>\<open>not x\<close>.\<close>

fun truthy :: "json \<Rightarrow> bool" where
  "truthy JNull = False"
| "truthy (JBool b) = b"
| "truthy (JNum x) = (x \<noteq> 0)"
| "truthy (JStr s) = (s \<noteq> [])"
| "truthy (JArr xs) = (xs \<noteq> [])"
| "truthy (JObj kvs) = (kvs \<noteq> [])"

text \<open>\<^verbatim>\<open>isinstance(x, dict)\<close>.\<close>

fun is_dict :: "json \<Rightarrow> bool" where
  "is_dict (JObj kvs) = True"
| "is_dict v = False"

text \<open>\<^verbatim>\<open>d.get(key, default)\<close>: only a dict has the method.\<close>

fun py_get :: "json \<Rightarrow> string \<Rightarrow> json \<Rightarrow> py_error + json" where
  "py_get (JObj kvs) key dflt = Inr (case map_of kvs key of Some v \<Rightarrow> v | None \<Rightarrow> dflt)"
| "py_get v key dflt = Inl AttributeError"

text \<open>
  Comparison with a float constant: defined on numbers and booleans (True is 1, False
  is 0), TypeError on everything else.
\<close>

fun as_number :: "json \<Rightarrow> py_error + real" where
  "as_number (JNum x) = Inr x"
| "as_number (JBool b) = Inr (if b then 1 else 0)"
| "as_number v = Inl TypeError"

definition py_gt :: "json \<Rightarrow> real \<Rightarrow> py_error + bool" where
  "py_gt v c = andthen (as_number v) (\<lambda>x. Inr (x > c))"

definition py_le :: "json \<Rightarrow> real \<Rightarrow> py_error + bool" where
  "py_le v c = andthen (as_number v) (\<lambda>x. Inr (x \<le> c))"

text \<open>Formatting with \<^verbatim>\<open>{x:.2f}\<close>: the printed text is dropped, the exception kept.\<close>

fun format_2f :: "json \<Rightarrow> py_error + unit" where
  "format_2f (JNum x) = Inr ()"
| "format_2f (JBool b) = Inr ()"
| "format_2f (JStr s) = Inl ValueError"
| "format_2f v = Inl TypeError"

text \<open>\<^verbatim>\<open>s.lower()\<close> (on ASCII letters) and the substring test \<^verbatim>\<open>sub in s\<close>.\<close>

definition lower_char :: "char \<Rightarrow> char" where
  "lower_char c =
     (case map_of (zip ''ABCDEFGHIJKLMNOPQRSTUVWXYZ'' ''abcdefghijklmnopqrstuvwxyz'') c of
        Some l \<Rightarrow> l
      | None \<Rightarrow> c)"

fun str_lower :: "json \<Rightarrow> py_error + string" where
  "str_lower (JStr s) = Inr (map lower_char s)"
| "str_lower v = Inl AttributeError"

fun contains :: "string \<Rightarrow> string \<Rightarrow> bool" where
  "contains sub [] = (sub = [])"
| "contains sub (c # cs) = (prefix sub (c # cs) \<or> contains sub cs)"

subsection \<open>Responses, requests and the server\<close>

text \<open>
  A response carries its status code and its text: empty, text that is not JSON, or
  the JSON value it decodes to.
\<close>

datatype resp_text = EmptyText | NotJson | JsonText json

record response =
  status_code :: int
  body_text :: resp_text

text \<open>\<^verbatim>\<open>response.json()\<close>, and \<^verbatim>\<open>response.json() if response.text else {}\<close>.\<close>

definition response_json :: "response \<Rightarrow> py_error + json" where
  "response_json r = (case body_text r of JsonText j \<Rightarrow> Inr j | EmptyText \<Rightarrow> Inl JSONDecodeError
                        | NotJson \<Rightarrow> Inl JSONDecodeError)"

definition json_or_empty :: "response \<Rightarrow> py_error + json" where
  "json_or_empty r = (case body_text r of EmptyText \<Rightarrow> Inr (JObj []) | JsonText j \<Rightarrow> response_json r
                        | NotJson \<Rightarrow> response_json r)"

text \<open>
  The requests the scripts send: the login, a multipart upload (file name and the bytes
  read from the file object), a handshake init (the base64 text of the key) and a
  handshake validate (the handshake id).  Requests after the login carry the bearer
  token, which is left out.

  The server is the environment: any function from the requests received so far, the
  current one last, to a response or a transport error.  A script threads the list of
  requests it has sent.
\<close>

datatype request =
  Login
  | Upload string "8 word list"
  | HandshakeInit string
  | HandshakeValidate json

type_synonym server = "request list \<Rightarrow> py_error + response"

definition post :: "server \<Rightarrow> request \<Rightarrow> request list \<Rightarrow> (py_error + response) \<times> request list" where
  "post srv rq sent = (srv (sent @ [rq]), sent @ [rq])"

subsection \<open>BytesIO\<close>

text \<open>
  An in-memory stream: its buffer and its read position.  The HTTP client builds a
  multipart body with \<^verbatim>\<open>fp.read()\<close>, which returns the bytes from the position to the
  end and leaves the position at the end; it does not rewind.
\<close>

record bytesio =
  getvalue :: "8 word list"
  tell :: nat

definition BytesIO :: "8 word list \<Rightarrow> bytesio" where
  "BytesIO bs = \<lparr>getvalue = bs, tell = 0\<rparr>"

definition read_all :: "bytesio \<Rightarrow> 8 word list \<times> bytesio" where
  "read_all fp = (drop (tell fp) (getvalue fp), fp\<lparr>tell := length (getvalue fp)\<rparr>)"

definition post_file ::
  "server \<Rightarrow> string \<Rightarrow> bytesio \<Rightarrow> request list \<Rightarrow> (py_error + response) \<times> bytesio \<times> request list" where
  "post_file srv filename fp sent =
     (let (fdata, fp') = read_all fp;
          (r, sent') = post srv (Upload filename fdata) sent
      in (r, fp', sent'))"

definition bytes :: "string \<Rightarrow> 8 word list" where
  "bytes s = map of_char s"

subsection \<open>base64.b64encode\<close>

definition b64_alphabet :: string where
  "b64_alphabet = ''ABCDEFGHIJKLMNOPQRSTUVWXYZabcdefghijklmnopqrstuvwxyz0123456789+/''"

definition b64_char :: "nat \<Rightarrow> char" where
  "b64_char n = b64_alphabet ! (n mod 64)"

fun b64encode :: "8 word list \<Rightarrow> string" where
  "b64encode [] = []"
| "b64encode [a] =
     (let n = unat a * 65536
      in [b64_char (n div 262144), b64_char (n div 4096), CHR ''='', CHR ''=''])"
| "b64encode [a, b] =
     (let n = unat a * 65536 + unat b * 256
      in [b64_char (n div 262144), b64_char (n div 4096), b64_char (n div 64), CHR ''=''])"
| "b64encode (a # b # c # rest) =
     (let n = unat a * 65536 + unat b * 256 + unat c
      in [b64_char (n div 262144), b64_char (n div 4096), b64_char (n div 64), b64_char n]
         @ b64encode rest)"

section \<open>attack_simulator.py\<close>

text \<open>
  Each scenario takes the server and the requests sent so far, and returns its boolean
  result with the extended list of requests.  Printing is dropped, except where
  formatting a value can raise.
\<close>

definition get_auth_token :: "server \<Rightarrow> request list \<Rightarrow> json \<times> request list" where
  "get_auth_token srv sent =
     (let (r, sent') = post srv Login sent in
      ((case r of
          Inl e \<Rightarrow> JNull
        | Inr response \<Rightarrow>
            if status_code response = 200
            then (case andthen (response_json response) (\<lambda>j. py_get j ''token'' JNull) of
                    Inl e \<Rightarrow> JNull
                  | Inr token \<Rightarrow> token)
            else JNull), sent'))"

subsection \<open>tampered_upload_demo\<close>

definition legitimate_data :: "8 word list" where
  "legitimate_data = bytes ''This is supposed to be encrypted data with AES-GCM''"

text \<open>The loop \<^verbatim>\<open>for i in range(10, 20): tampered_data[i] = tampered_data[i] ^ 0xFF\<close>.\<close>

fun flip_bytes :: "nat list \<Rightarrow> 8 word list \<Rightarrow> py_error + 8 word list" where
  "flip_bytes [] d = Inr d"
| "flip_bytes (i # is) d =
     (if i < length d then flip_bytes is (d[i := d ! i XOR 0xFF]) else Inl IndexError)"

text \<open>Lines 85-122: what the scenario makes of the upload response.\<close>

definition tamper_inspect :: "response \<Rightarrow> py_error + bool" where
  "tamper_inspect response =
     andthen (json_or_empty response) (\<lambda>response_data.
       let passed = (status_code response \<in> set [400, 403, 500]) in
       if passed then
         andthen (py_get response_data ''error'' (JStr [])) (\<lambda>error_msg.
         andthen (py_get response_data ''details'' (JObj [])) (\<lambda>details_msg.
         andthen (py_get details_msg ''ids'' (JObj [])) (\<lambda>ids_info.
         andthen (if is_dict ids_info then py_get ids_info ''anomaly_score'' (JNum 0)
                  else Inr (JNum 0)) (\<lambda>anomaly_score.
         andthen (py_gt anomaly_score (5/10)) (\<lambda>moderate.
         andthen (if moderate then format_2f anomaly_score else Inr ()) (\<lambda>u.
         andthen (py_gt anomaly_score (8/10)) (\<lambda>high.
         andthen (format_2f anomaly_score) (\<lambda>u. Inr passed))))))))
       else Inr passed)"

definition tampered_upload_demo :: "server \<Rightarrow> request list \<Rightarrow> bool \<times> request list" where
  "tampered_upload_demo srv sent =
     (let (token, sent1) = get_auth_token srv sent in
      if \<not> truthy token then (False, sent1)
      else
        (case flip_bytes [10..<20] legitimate_data of
           Inl e \<Rightarrow> (False, sent1)
         | Inr tampered_data \<Rightarrow>
             (let (r, fp, sent2) =
                    post_file srv ''tampered_file.encrypted'' (BytesIO tampered_data) sent1
              in ((case andthen r tamper_inspect of Inl e \<Rightarrow> False | Inr passed \<Rightarrow> passed),
                  sent2))))"

subsection \<open>mitm_wrong_key\<close>

definition fake_key_bytes :: "8 word list" where
  "fake_key_bytes = bytes ''FAKE_PUBLIC_KEY_INJECTED_BY_ATTACKER''"

text \<open>Lines 177-197: what the scenario makes of the validate response.\<close>

definition validate_inspect :: "response \<Rightarrow> py_error + bool" where
  "validate_inspect validate_response =
     andthen (json_or_empty validate_response) (\<lambda>validate_data.
     andthen (py_get validate_data ''verified'' (JBool False)) (\<lambda>verified.
     andthen (py_get validate_data ''idsResult'' (JObj [])) (\<lambda>ids_result.
     andthen (if is_dict ids_result then py_get ids_result ''anomaly_score'' (JNum 0)
              else Inr (JNum 0)) (\<lambda>anomaly_score.
     andthen (format_2f anomaly_score) (\<lambda>u.
       let passed = (\<not> truthy verified \<or> status_code validate_response \<noteq> 200) in
       if passed then andthen (py_gt anomaly_score (85/100)) (\<lambda>shown. Inr passed)
       else Inr passed)))))"

definition mitm_wrong_key :: "server \<Rightarrow> request list \<Rightarrow> bool \<times> request list" where
  "mitm_wrong_key srv sent =
     (let (token, sent1) = get_auth_token srv sent in
      if \<not> truthy token then (False, sent1)
      else
        (let fake_public_key = b64encode fake_key_bytes;
             (r, sent2) = post srv (HandshakeInit fake_public_key) sent1
         in (case r of
               Inl e \<Rightarrow> (False, sent2)
             | Inr response \<Rightarrow>
                 (case json_or_empty response of
                    Inl e \<Rightarrow> (False, sent2)
                  | Inr response_data \<Rightarrow>
                      if status_code response = 200 then
                        (case py_get response_data ''handshakeId'' JNull of
                           Inl e \<Rightarrow> (False, sent2)
                         | Inr handshake_id \<Rightarrow>
                             if truthy handshake_id then
                               (let (vr, sent3) = post srv (HandshakeValidate handshake_id) sent2
                                in ((case andthen vr validate_inspect of
                                       Inl e \<Rightarrow> False
                                     | Inr passed \<Rightarrow> passed), sent3))
                             else (False, sent2))
                      else (True, sent2)))))"

subsection \<open>replay_attack_demo\<close>

definition test_content :: "8 word list" where
  "test_content = bytes ''Initial legitimate file upload''"

text \<open>Lines 257-263: does the response to a replay name the replay?\<close>

definition replay_inspect :: "response \<Rightarrow> py_error + bool" where
  "replay_inspect replay_response =
     andthen (json_or_empty replay_response) (\<lambda>replay_data.
     andthen (py_get replay_data ''error'' (JStr [])) (\<lambda>error_msg.
     andthen (str_lower error_msg) (\<lambda>lowered.
       Inr (contains ''replay'' lowered \<or> contains ''nonce'' lowered))))"

text \<open>
  The loop \<^verbatim>\<open>for i in range(3)\<close> over the one file object \<^verbatim>\<open>replay_files\<close>, with the
  number of rounds left.  \<open>Inr True\<close> is the early \<^verbatim>\<open>return True\<close> on a replay message,
  \<open>Inr False\<close> the end of the loop without one, \<open>Inl e\<close> an exception.
\<close>

fun replay_loop ::
  "server \<Rightarrow> nat \<Rightarrow> bytesio \<Rightarrow> request list \<Rightarrow> (py_error + bool) \<times> request list" where
  "replay_loop srv 0 fp sent = (Inr False, sent)"
| "replay_loop srv (Suc n) fp sent =
     (let (r, fp', sent') = post_file srv ''replay_attack.txt'' fp sent in
      (case andthen r replay_inspect of
         Inl e \<Rightarrow> (Inl e, sent')
       | Inr detected \<Rightarrow>
           if detected then (Inr True, sent') else replay_loop srv n fp' sent'))"

definition replay_attack_demo :: "server \<Rightarrow> request list \<Rightarrow> bool \<times> request list" where
  "replay_attack_demo srv sent =
     (let (token, sent1) = get_auth_token srv sent in
      if \<not> truthy token then (False, sent1)
      else
        (let (initial_response, fp, sent2) =
               post_file srv ''initial_upload.txt'' (BytesIO test_content) sent1
         in (case initial_response of
               Inl e \<Rightarrow> (False, sent2)
             | Inr r \<Rightarrow>
                 (let replay_files = BytesIO test_content;
                      (outcome, sent3) = replay_loop srv 3 replay_files sent2
                  in ((case outcome of Inl e \<Rightarrow> False | Inr detected \<Rightarrow> True), sent3)))))"

subsection \<open>bruteforce_handshake\<close>

record counters =
  failed_count :: nat
  success_count :: nat
  suspicious_count :: nat

text \<open>Lines 324-335: the counters after a validate response has arrived.\<close>

definition count_validate :: "response \<Rightarrow> counters \<Rightarrow> py_error + counters" where
  "count_validate validate_response c =
     andthen (json_or_empty validate_response) (\<lambda>validate_data.
     andthen (if is_dict validate_data then py_get validate_data ''idsResult'' (JObj [])
              else Inr (JObj [])) (\<lambda>ids_result.
     andthen (if is_dict ids_result then py_get ids_result ''anomaly_score'' (JNum 0)
              else Inr (JNum 0)) (\<lambda>anomaly_score.
     andthen (py_gt anomaly_score (5/10)) (\<lambda>flagged.
       let c1 = (if flagged then c\<lparr>suspicious_count := suspicious_count c + 1\<rparr> else c) in
       if status_code validate_response = 200
       then andthen (py_le anomaly_score (5/10)) (\<lambda>clean.
              if clean then Inr (c1\<lparr>success_count := success_count c1 + 1\<rparr>)
              else Inr (c1\<lparr>failed_count := failed_count c1 + 1\<rparr>))
       else Inr (c1\<lparr>failed_count := failed_count c1 + 1\<rparr>)))))"

text \<open>
  One round of the loop, with the key \<^verbatim>\<open>os.urandom(32)\<close> returned in this round.  An
  exception raised anywhere in the round is caught by the inner handler, which adds
  one failure; every such exception is raised before a counter is touched.
\<close>

definition bruteforce_attempt ::
  "server \<Rightarrow> 8 word list \<Rightarrow> counters \<times> request list \<Rightarrow> counters \<times> request list" where
  "bruteforce_attempt srv key st =
     (let (c, sent) = st;
          failed = c\<lparr>failed_count := failed_count c + 1\<rparr>;
          fake_key = b64encode key;
          (r, sent1) = post srv (HandshakeInit fake_key) sent
      in (case r of
            Inl e \<Rightarrow> (failed, sent1)
          | Inr response \<Rightarrow>
              if status_code response = 200 then
                (case andthen (response_json response) (\<lambda>data. py_get data ''handshakeId'' JNull) of
                   Inl e \<Rightarrow> (failed, sent1)
                 | Inr handshake_id \<Rightarrow>
                     if truthy handshake_id then
                       (let (vr, sent2) = post srv (HandshakeValidate handshake_id) sent1 in
                        (case andthen vr (\<lambda>validate_response. count_validate validate_response c) of
                           Inl e \<Rightarrow> (failed, sent2)
                         | Inr c' \<Rightarrow> (c', sent2)))
                     else (c, sent1))
              else (failed, sent1)))"

definition bruteforce_loop ::
  "server \<Rightarrow> (nat \<Rightarrow> 8 word list) \<Rightarrow> nat \<Rightarrow> request list \<Rightarrow> counters \<times> request list" where
  "bruteforce_loop srv urandom attempts sent =
     fold (\<lambda>i. bruteforce_attempt srv (urandom i)) [0..<attempts]
       (\<lparr>failed_count = 0, success_count = 0, suspicious_count = 0\<rparr>, sent)"

text \<open>
  The test \<^verbatim>\<open>failed_count > attempts * 0.3\<close> is taken over the reals.  The script calls
  the scenario with 50 attempts, where the floating point product is exactly 15.
\<close>

definition bruteforce_handshake ::
  "server \<Rightarrow> (nat \<Rightarrow> 8 word list) \<Rightarrow> nat \<Rightarrow> request list \<Rightarrow> bool \<times> request list" where
  "bruteforce_handshake srv urandom attempts sent =
     (let (token, sent1) = get_auth_token srv sent in
      if \<not> truthy token then (False, sent1)
      else
        (let (c, sent2) = bruteforce_loop srv urandom attempts sent1;
             passed = (real (failed_count c) > real attempts * (3/10) \<or> suspicious_count c > 0)
         in (passed, sent2)))"

subsection \<open>The script body\<close>

text \<open>
  Lines 377-416: the four scenarios in order, the count of those that passed, and the
  end of the script.  The script calls neither \<^verbatim>\<open>sys.exit\<close> nor \<^verbatim>\<open>exit\<close>, and every
  scenario catches its exceptions, so the interpreter leaves with status 0.
\<close>

record run_summary =
  results :: "(string \<times> bool) list"
  passed_n :: nat
  total_n :: nat
  exit_status :: int

definition attack_simulator_main :: "server \<Rightarrow> (nat \<Rightarrow> 8 word list) \<Rightarrow> run_summary \<times> request list" where
  "attack_simulator_main srv urandom =
     (let (r1, sent1) = tampered_upload_demo srv [];
          (r2, sent2) = mitm_wrong_key srv sent1;
          (r3, sent3) = replay_attack_demo srv sent2;
          (r4, sent4) = bruteforce_handshake srv urandom 50 sent3;
          results = [(''MITM Tampered Ciphertext'', r1), (''MITM Wrong Key'', r2),
                     (''Replay Attack'', r3), (''Brute Force Handshake'', r4)];
          passed = length (filter snd results);
          total = length results
      in (\<lparr>results = results, passed_n = passed, total_n = total, exit_status = 0\<rparr>, sent4))"

section \<open>run_full_security_tests.py\<close>

text \<open>
  What \<^verbatim>\<open>subprocess.run(..., timeout=300)\<close> does with a test script: the script exits
  with a return code, or it is still running after 300 seconds (TimeoutExpired), or
  it cannot be started.  The launcher is the environment: a function from the scripts
  launched so far, the current one last, to that outcome.
\<close>

datatype proc_outcome = Exited int | TimeoutExpired | SpawnError

type_synonym launcher = "string list \<Rightarrow> proc_outcome"

definition run_test :: "launcher \<Rightarrow> string \<Rightarrow> string list \<Rightarrow> (bool \<times> int) \<times> string list" where
  "run_test run script_path launched =
     (let launched' = launched @ [script_path] in
      ((case run launched' of
          Exited returncode \<Rightarrow> (returncode = 0, returncode)
        | TimeoutExpired \<Rightarrow> (False, -1)
        | SpawnError \<Rightarrow> (False, -1)), launched'))"

text \<open>\<open>path_exists\<close> is the file system as \<^verbatim>\<open>Path(script).exists()\<close> sees it.\<close>

definition required_scripts :: "string list" where
  "required_scripts = [''client/client.py'', ''attack_simulator.py'', ''upload_corrupted_file.py'']"

definition check_prerequisites :: "(string \<Rightarrow> bool) \<Rightarrow> bool" where
  "check_prerequisites path_exists =
     (let issues = filter (\<lambda>script. \<not> path_exists script) required_scripts
      in issues = [])"

definition main :: "(string \<Rightarrow> bool) \<Rightarrow> launcher \<Rightarrow> bool \<times> string list" where
  "main path_exists run =
     (if \<not> check_prerequisites path_exists then (False, [])
      else
        (let ((p1, code1), l1) = run_test run ''client/client.py'' [];
             test_results = [(''TEST 1: Normal Secure Upload'', p1)];
             ((p2, code2), l2) = run_test run ''attack_simulator.py'' l1;
             test_results = test_results @ [(''TEST 2-4: MITM & Attack Scenarios'', p2)];
             ((p3, code3), l3) = run_test run ''upload_corrupted_file.py'' l2;
             test_results = test_results @ [(''TEST 5-7: Corrupted File Detection'', p3)];
             passed_count = length (filter snd test_results);
             total_count = length test_results
         in (passed_count = total_count, l3)))"

text \<open>
  The script body: \<^verbatim>\<open>input()\<close> waits for the operator; an interrupt or a closed input
  ends the run with status 1 before any test, otherwise the status is 0 or 1 by the
  result of \<open>main\<close>.
\<close>

datatype stdin_event = Enter | EndOfFile | KeyboardInterrupt

definition suite_exit_status ::
  "stdin_event \<Rightarrow> (string \<Rightarrow> bool) \<Rightarrow> launcher \<Rightarrow> int \<times> string list" where
  "suite_exit_status ev path_exists run =
     (case ev of
        Enter \<Rightarrow> (let (success, launched) = main path_exists run
                   in (if success then 0 else 1, launched))
      | EndOfFile \<Rightarrow> (1, [])
      | KeyboardInterrupt \<Rightarrow> (1, []))"

section \<open>Response shapes and example servers\<close>







text \<open>
  For a response to a replayed upload: no text, or a JSON object whose \<^verbatim>\<open>error\<close> is
  absent or a string.
\<close>

definition replay_body_ok :: "response \<Rightarrow> bool" where
  "replay_body_ok r =
     (case body_text r of
        EmptyText \<Rightarrow> True
      | NotJson \<Rightarrow> False
      | JsonText j \<Rightarrow>
          (case j of
             JObj kvs \<Rightarrow> (case map_of kvs ''error'' of None \<Rightarrow> True | Some (JStr s) \<Rightarrow> True
                           | Some _ \<Rightarrow> False)
           | JNull \<Rightarrow> False | JBool b \<Rightarrow> False | JNum x \<Rightarrow> False | JStr s \<Rightarrow> False
           | JArr xs \<Rightarrow> False))"

text \<open>Servers used as concrete inputs below.  Each answers by the kind of the last request.\<close>

definition ok_with_token :: "py_error + response" where
  "ok_with_token = Inr \<lparr>status_code = 200, body_text = JsonText (JObj [(''token'', JStr ''t'')])\<rparr>"

definition reply :: "int \<Rightarrow> (string \<times> json) list \<Rightarrow> py_error + response" where
  "reply code kvs = Inr \<lparr>status_code = code, body_text = JsonText (JObj kvs)\<rparr>"

text \<open>Accepts every upload, tampered or not; rejects every handshake key.\<close>

definition srv_accepts_upload :: server where
  "srv_accepts_upload h =
     (case last h of
        Login \<Rightarrow> ok_with_token
      | Upload filename content \<Rightarrow> reply 200 []
      | HandshakeInit k \<Rightarrow> reply 400 [(''error'', JStr ''invalid public key'')]
      | HandshakeValidate i \<Rightarrow> reply 404 [])"



text \<open>Answers every request with status 200 and the same body, which has no handshake id.\<close>

definition srv_no_handshake_id :: server where
  "srv_no_handshake_id h = ok_with_token"

section \<open>Properties of the anomaly scorer\<close>

lemma andthen_simps [simp]:
  "andthen (Inl e) f = Inl e"
  "andthen (Inr v) f = f v"
  by (simp_all add: andthen_def)

lemma andthen_eq_Inr:
  "andthen m f = Inr y \<longleftrightarrow> (\<exists>v. m = Inr v \<and> f v = Inr y)"
  by (cases m) simp_all


lemma check_row_malformed:
  "Malformed \<in> set vs \<Longrightarrow> check_row vs = Inl ValueError"
proof (induction vs)
  case Nil
  then show ?case by simp
next
  case (Cons v vs)
  show ?case
  proof (cases v)
    case (Finite x)
    with Cons have "check_row vs = Inl ValueError" by simp
    with Finite show ?thesis by simp
  next
    case Malformed
    then show ?thesis by simp
  qed
qed

lemma scaler_single [simp]:
  "scaler_mean [x] = x" "scaler_var [x] = 0" "scaler_scale [x] = 1"
  by (simp_all add: scaler_mean_def scaler_var_def scaler_scale_def)



lemma fit_transform_malformed:
  assumes "Malformed \<in> snd ` set f"
  shows "fit_transform (single_row_frame f) = Inl ValueError"
proof -
  from assms have "Malformed \<in> set (map snd f)" by simp
  then have "check_row (map snd f) = Inl ValueError" by (rule check_row_malformed)
  then show ?thesis by (simp add: fit_transform_def single_row_frame_def)
qed




text \<open>
  Claim C2.  The verdict returned by \<open>predict_handshake\<close> is "suspicious" exactly when
  the returned score is strictly greater than 0.5 and "normal" otherwise; for
  \<open>predict_file\<close> the threshold is 0.4.
\<close>

theorem verdict_is_threshold_of_score:
  "(snd (predict_handshake f m) = ''suspicious'' \<longleftrightarrow> fst (predict_handshake f m) > 1/2)
 \<and> (snd (predict_handshake f m) = ''normal'' \<longleftrightarrow> \<not> fst (predict_handshake f m) > 1/2)
 \<and> (snd (predict_file f m) = ''suspicious'' \<longleftrightarrow> fst (predict_file f m) > 4/10)
 \<and> (snd (predict_file f m) = ''normal'' \<longleftrightarrow> \<not> fst (predict_file f m) > 4/10)"
proof -
  have h: "(snd (predict_handshake f m) = ''suspicious'' \<longleftrightarrow> fst (predict_handshake f m) > 1/2)
     \<and> (snd (predict_handshake f m) = ''normal'' \<longleftrightarrow> \<not> fst (predict_handshake f m) > 1/2)"
    by (auto simp: predict_handshake_def handshake_try_def Let_def andthen_def split: sum.splits)
  have g: "(snd (predict_file f m) = ''suspicious'' \<longleftrightarrow> fst (predict_file f m) > 4/10)
     \<and> (snd (predict_file f m) = ''normal'' \<longleftrightarrow> \<not> fst (predict_file f m) > 4/10)"
    by (auto simp: predict_file_def file_try_def Let_def andthen_def split: sum.splits)
  from h g show ?thesis by blast
qed


lemma model_score_NoModel: "model_score NoModel X = Inl AttributeError"
  by (simp add: model_score_def)

lemma handshake_try_raises:
  assumes "m = NoModel \<or> f = [] \<or> Malformed \<in> snd ` set f"
  shows "\<exists>e. handshake_try f m = Inl e"
proof (cases "fit_transform (single_row_frame f)")
  case (Inl e)
  then show ?thesis by (simp add: handshake_try_def)
next
  case (Inr X)
  have "f \<noteq> []" using Inr by (auto simp: fit_transform_def single_row_frame_def)
  moreover have "Malformed \<notin> snd ` set f" using Inr fit_transform_malformed by fastforce
  ultimately have "m = NoModel" using assms by blast
  with Inr show ?thesis by (simp add: handshake_try_def model_score_NoModel)
qed

lemma file_try_raises:
  assumes "m = NoModel \<or> f = [] \<or> Malformed \<in> snd ` set f"
  shows "\<exists>e. file_try f m = Inl e"
proof (cases "fit_transform (single_row_frame f)")
  case (Inl e)
  then show ?thesis by (simp add: file_try_def)
next
  case (Inr X)
  have "f \<noteq> []" using Inr by (auto simp: fit_transform_def single_row_frame_def)
  moreover have "Malformed \<notin> snd ` set f" using Inr fit_transform_malformed by fastforce
  ultimately have "m = NoModel" using assms by blast
  with Inr show ?thesis by (simp add: file_try_def model_score_NoModel)
qed

text \<open>
  Claim C3.  On every input on which the prediction raises internally (no usable
  model, an empty or malformed feature dictionary, a model that raises, an empty
  prediction array), neither function propagates the exception: each returns exactly
  the pair (0.1, "normal").
\<close>

theorem prediction_fails_safe:
  "(m = NoModel \<or> f = [] \<or> Malformed \<in> snd ` set f \<or> (\<exists>e. handshake_try f m = Inl e)
      \<longrightarrow> predict_handshake f m = (1/10, ''normal''))
 \<and> (m = NoModel \<or> f = [] \<or> Malformed \<in> snd ` set f \<or> (\<exists>e. file_try f m = Inl e)
      \<longrightarrow> predict_file f m = (1/10, ''normal''))"
proof (intro conjI impI)
  assume "m = NoModel \<or> f = [] \<or> Malformed \<in> snd ` set f \<or> (\<exists>e. handshake_try f m = Inl e)"
  then obtain e where "handshake_try f m = Inl e" using handshake_try_raises by blast
  then show "predict_handshake f m = (1/10, ''normal'')" by (simp add: predict_handshake_def)
next
  assume "m = NoModel \<or> f = [] \<or> Malformed \<in> snd ` set f \<or> (\<exists>e. file_try f m = Inl e)"
  then obtain e where "file_try f m = Inl e" using file_try_raises by blast
  then show "predict_file f m = (1/10, ''normal'')" by (simp add: predict_file_def)
qed

theorem prediction_fails_safe_witness:
  "predict_handshake [(''key_size'', Finite 256)] NoModel = (1/10, ''normal'')
 \<and> predict_file [(''file_size'', Malformed)] (WithProba (\<lambda>X. Inr [[1/10, 9/10]])) = (1/10, ''normal'')"
  using prediction_fails_safe [of NoModel "[(''key_size'', Finite 256)]"]
    prediction_fails_safe [of "WithProba (\<lambda>X. Inr [[1/10, 9/10]])" "[(''file_size'', Malformed)]"]
  by simp

lemma py_index_mem: "py_index xs i = Inr x \<Longrightarrow> x \<in> set xs"
  by (auto simp: py_index_def split: if_splits)

lemma model_score_bounded:
  assumes "\<forall>p X P. m = WithProba p \<and> p X = Inr P \<longrightarrow> (\<forall>row\<in>set P. \<forall>x\<in>set row. 0 \<le> x \<and> x \<le> 1)"
    and "\<forall>p X ys. m = PredictOnly p \<and> p X = Inr ys \<longrightarrow> (\<forall>y\<in>set ys. 0 \<le> y \<and> y \<le> 1)"
    and "model_score m X = Inr s"
  shows "0 \<le> s \<and> s \<le> 1"
proof (cases m)
  case NoModel
  with assms(3) show ?thesis by (simp add: model_score_def)
next
  case (WithProba p)
  with assms(3) obtain P row where P: "p X = Inr P" "py_index P 0 = Inr row"
    and s: "(if length row > 1 then py_index row 1 else py_index row 0) = Inr s"
    by (auto simp: model_score_def andthen_eq_Inr)
  from s have "s \<in> set row" by (auto dest: py_index_mem split: if_splits)
  moreover from P(2) have "row \<in> set P" by (rule py_index_mem)
  ultimately show ?thesis using assms(1) WithProba P(1) by blast
next
  case (PredictOnly p)
  with assms(3) obtain ys where ys: "p X = Inr ys" "py_index ys 0 = Inr s"
    by (auto simp: model_score_def andthen_eq_Inr)
  from ys(2) have "s \<in> set ys" by (rule py_index_mem)
  then show ?thesis using assms(2) PredictOnly ys(1) by blast
qed

text \<open>
  Claim C9, as amended.  The score is whatever the model returns, without clamping:
  for every feature dictionary and every model whose probabilities (or, without
  \<^verbatim>\<open>predict_proba\<close>, whose predicted labels) lie in [0,1], the score returned by
  \<open>predict_handshake\<close> and by \<open>predict_file\<close> lies in [0,1].  A model whose
  \<^verbatim>\<open>predict\<close> returns the label -1 gives the score -1.
\<close>

theorem score_in_unit_interval:
  assumes "\<forall>p X P. m = WithProba p \<and> p X = Inr P \<longrightarrow> (\<forall>row\<in>set P. \<forall>x\<in>set row. 0 \<le> x \<and> x \<le> 1)"
    and "\<forall>p X ys. m = PredictOnly p \<and> p X = Inr ys \<longrightarrow> (\<forall>y\<in>set ys. 0 \<le> y \<and> y \<le> 1)"
  shows "0 \<le> fst (predict_handshake f m) \<and> fst (predict_handshake f m) \<le> 1
       \<and> 0 \<le> fst (predict_file f m) \<and> fst (predict_file f m) \<le> 1"
proof -
  have h: "0 \<le> fst (predict_handshake f m) \<and> fst (predict_handshake f m) \<le> 1"
  proof (cases "handshake_try f m")
    case (Inl e)
    then show ?thesis by (simp add: predict_handshake_def)
  next
    case (Inr r)
    then obtain X where "model_score m X = Inr (fst r)"
      by (auto simp: handshake_try_def Let_def andthen_eq_Inr)
    then have "0 \<le> fst r \<and> fst r \<le> 1" using model_score_bounded [OF assms] by blast
    with Inr show ?thesis by (simp add: predict_handshake_def)
  qed
  have g: "0 \<le> fst (predict_file f m) \<and> fst (predict_file f m) \<le> 1"
  proof (cases "file_try f m")
    case (Inl e)
    then show ?thesis by (simp add: predict_file_def)
  next
    case (Inr r)
    then obtain X where "model_score m X = Inr (fst r)"
      by (auto simp: file_try_def Let_def andthen_eq_Inr)
    then have "0 \<le> fst r \<and> fst r \<le> 1" using model_score_bounded [OF assms] by blast
    with Inr show ?thesis by (simp add: predict_file_def)
  qed
  from h g show ?thesis by blast
qed

theorem score_in_unit_interval_witness:
  "fst (predict_handshake [(''key_size'', Finite 256)] (WithProba (\<lambda>X. Inr [[1/4, 3/4]]))) = 3/4
 \<and> 0 \<le> fst (predict_handshake [(''key_size'', Finite 256)] (WithProba (\<lambda>X. Inr [[1/4, 3/4]])))
 \<and> fst (predict_handshake [(''key_size'', Finite 256)] (WithProba (\<lambda>X. Inr [[1/4, 3/4]]))) \<le> 1"
proof -
  have a: "\<forall>p X P. WithProba (\<lambda>X. Inr [[1/4, 3/4]]) = WithProba p \<and> p X = Inr P
      \<longrightarrow> (\<forall>row\<in>set P. \<forall>x\<in>set row. 0 \<le> x \<and> x \<le> (1::real))"
    by auto
  have b: "\<forall>p X ys. WithProba (\<lambda>X. Inr [[1/4, 3/4]]) = PredictOnly p \<and> p X = Inr ys
      \<longrightarrow> (\<forall>y\<in>set ys. 0 \<le> y \<and> y \<le> (1::real))"
    by simp
  have "fst (predict_handshake [(''key_size'', Finite 256)] (WithProba (\<lambda>X. Inr [[1/4, 3/4]]))) = 3/4"
    by (simp add: predict_handshake_def handshake_try_def model_score_def py_index_def
      fit_transform_def single_row_frame_def)
  then show ?thesis
    using score_in_unit_interval [OF a b, of "[(''key_size'', Finite 256)]"] by simp
qed

theorem score_outside_unit_interval_counterexample:
  "predict_handshake [(''key_size'', Finite 256)] (PredictOnly (\<lambda>X. Inr [-1])) = (-1, ''normal'')
 \<and> predict_file [(''file_size'', Finite 1024)] (PredictOnly (\<lambda>X. Inr [-1])) = (-1, ''normal'')"
  by (simp add: predict_handshake_def handshake_try_def predict_file_def file_try_def
      model_score_def py_index_def fit_transform_def single_row_frame_def)

theorem verdict_is_threshold_of_score_witness:
  "predict_handshake [(''key_size'', Finite 256)] (WithProba (\<lambda>X. Inr [[55/100, 45/100]])) = (45/100, ''normal'')
 \<and> predict_file [(''file_size'', Finite 1024)] (WithProba (\<lambda>X. Inr [[55/100, 45/100]])) = (45/100, ''suspicious'')"
  using verdict_is_threshold_of_score [of "[(''key_size'', Finite 256)]" "WithProba (\<lambda>X. Inr [[55/100, 45/100]])"]
    verdict_is_threshold_of_score [of "[(''file_size'', Finite 1024)]" "WithProba (\<lambda>X. Inr [[55/100, 45/100]])"]
  by (simp add: predict_handshake_def handshake_try_def predict_file_def file_try_def
      model_score_def py_index_def fit_transform_def single_row_frame_def)

section \<open>Properties of the test suite runner\<close>

lemma run_test_launched: "snd (run_test run p l) = l @ [p]"
  by (simp add: run_test_def Let_def)

lemma run_test_timeout: "run (l @ [p]) = TimeoutExpired \<Longrightarrow> fst (run_test run p l) = (False, -1)"
  by (simp add: run_test_def Let_def)

lemma main_launches_all:
  "check_prerequisites path_exists \<Longrightarrow> snd (main path_exists run) = required_scripts"
  by (simp add: main_def run_test_def Let_def required_scripts_def split: prod.splits)

lemma main_fails_on_timeout:
  assumes "check_prerequisites path_exists"
    and "run [''client/client.py''] = TimeoutExpired
       \<or> run [''client/client.py'', ''attack_simulator.py''] = TimeoutExpired
       \<or> run [''client/client.py'', ''attack_simulator.py'', ''upload_corrupted_file.py''] = TimeoutExpired"
  shows "\<not> fst (main path_exists run)"
  using assms by (auto simp: main_def run_test_def Let_def split: prod.splits proc_outcome.splits)

text \<open>
  Claim C5, as amended.  When a test script exceeds the 300 second limit, \<open>run_test\<close>
  records that test as failed with code -1 and returns; the run is not aborted: all
  three scripts are still launched, in order, and the suite then exits with status 1.
\<close>

theorem timeout_fails_suite_without_abort:
  assumes "check_prerequisites path_exists"
    and "run [''client/client.py''] = TimeoutExpired
       \<or> run [''client/client.py'', ''attack_simulator.py''] = TimeoutExpired
       \<or> run [''client/client.py'', ''attack_simulator.py'', ''upload_corrupted_file.py''] = TimeoutExpired"
  shows "suite_exit_status Enter path_exists run
           = (1, [''client/client.py'', ''attack_simulator.py'', ''upload_corrupted_file.py''])"
proof -
  have "\<not> fst (main path_exists run)" using assms by (rule main_fails_on_timeout)
  moreover have "snd (main path_exists run) = required_scripts"
    using assms(1) by (rule main_launches_all)
  ultimately show ?thesis
    by (cases "main path_exists run") (simp add: suite_exit_status_def required_scripts_def)
qed

theorem timeout_fails_suite_without_abort_witness:
  "suite_exit_status Enter (\<lambda>p. True)
     (\<lambda>l. if l = [''client/client.py'', ''attack_simulator.py''] then TimeoutExpired else Exited 0)
   = (1, [''client/client.py'', ''attack_simulator.py'', ''upload_corrupted_file.py''])"
proof -
  have a: "check_prerequisites (\<lambda>p. True)"
    by (simp add: check_prerequisites_def)
  show ?thesis
    using timeout_fails_suite_without_abort [OF a, of
      "\<lambda>l. if l = [''client/client.py'', ''attack_simulator.py''] then TimeoutExpired else Exited 0"]
    by simp
qed

theorem timeout_does_not_abort_counterexample:
  "snd (suite_exit_status Enter (\<lambda>p. True)
     (\<lambda>l. if last l = ''client/client.py'' then TimeoutExpired else Exited 0))
   = [''client/client.py'', ''attack_simulator.py'', ''upload_corrupted_file.py'']
 \<and> fst (run_test (\<lambda>l. if last l = ''client/client.py'' then TimeoutExpired else Exited 0)
       ''client/client.py'' []) = (False, -1)"
  by (simp add: suite_exit_status_def main_def run_test_def check_prerequisites_def
      required_scripts_def Let_def)

section \<open>Properties of the attack scenarios\<close>

lemma get_auth_token_sent: "snd (get_auth_token srv sent) = sent @ [Login]"
  by (simp add: get_auth_token_def post_def)

lemma json_or_empty_cases:
  "json_or_empty r = (case body_text r of EmptyText \<Rightarrow> Inr (JObj []) | NotJson \<Rightarrow> Inl JSONDecodeError
      | JsonText j \<Rightarrow> Inr j)"
  by (simp add: json_or_empty_def response_json_def split: resp_text.splits)





lemma flip_bytes_length: "flip_bytes is d = Inr d' \<Longrightarrow> length d' = length d"
  by (induction "is" arbitrary: d) (auto split: if_splits)

lemma flip_bytes_nth:
  "flip_bytes is d = Inr d' \<Longrightarrow> distinct is \<Longrightarrow> i < length d \<Longrightarrow>
     d' ! i = (if i \<in> set is then d ! i XOR 0xFF else d ! i)"
proof (induction "is" arbitrary: d)
  case Nil
  then show ?case by simp
next
  case (Cons j js)
  from Cons.prems(1) have j: "j < length d" and rest: "flip_bytes js (d[j := d ! j XOR 0xFF]) = Inr d'"
    by (auto split: if_splits)
  from Cons.prems(2) have dist: "distinct js" "j \<notin> set js" by auto
  have "d' ! i = (if i \<in> set js then (d[j := d ! j XOR 0xFF]) ! i XOR 0xFF else (d[j := d ! j XOR 0xFF]) ! i)"
    using Cons.IH [OF rest dist(1)] Cons.prems(3) by simp
  then show ?case using dist(2) j Cons.prems(3) by (auto simp: nth_list_update)
qed

lemma flip_bytes_defined:
  "\<forall>i\<in>set is. i < length d \<Longrightarrow> \<exists>d'. flip_bytes is d = Inr d'"
  by (induction "is" arbitrary: d) auto

lemma length_legitimate_data: "length legitimate_data = 50"
  by (simp add: legitimate_data_def bytes_def)

lemma tampered_data:
  "\<exists>d. flip_bytes [10..<20] legitimate_data = Inr d \<and> length d = length legitimate_data
      \<and> (\<forall>i<length d. d ! i = (if 10 \<le> i \<and> i < 20 then legitimate_data ! i XOR 0xFF
                                 else legitimate_data ! i))"
proof -
  have "\<forall>i\<in>set [10..<20]. i < length legitimate_data"
    by (simp add: length_legitimate_data)
  then obtain d where d: "flip_bytes [10..<20] legitimate_data = Inr d"
    using flip_bytes_defined by blast
  have len: "length d = length legitimate_data" using d by (rule flip_bytes_length)
  have mem: "\<And>i::nat. i \<in> set [10..<20] \<longleftrightarrow> 10 \<le> i \<and> i < 20"
    by (simp only: set_upt atLeastLessThan_iff)
  have dist: "distinct [10..<20::nat]" by (rule distinct_upt)
  have "\<forall>i<length d. d ! i = (if 10 \<le> i \<and> i < 20 then legitimate_data ! i XOR 0xFF
                                 else legitimate_data ! i)"
  proof (intro allI impI)
    fix i assume "i < length d"
    then have "i < length legitimate_data" using len by simp
    from flip_bytes_nth [OF d dist this] show "d ! i = (if 10 \<le> i \<and> i < 20
        then legitimate_data ! i XOR 0xFF else legitimate_data ! i)"
      by (simp only: mem)
  qed
  with d len show ?thesis by blast
qed


lemma tampered_upload_demo_unfold:
  assumes "truthy (fst (get_auth_token srv sent))"
    and "flip_bytes [10..<20] legitimate_data = Inr d"
  shows "tampered_upload_demo srv sent =
     ((case andthen (srv (sent @ [Login, Upload ''tampered_file.encrypted'' d])) tamper_inspect of
         Inl e \<Rightarrow> False | Inr passed \<Rightarrow> passed),
      sent @ [Login, Upload ''tampered_file.encrypted'' d])"
proof -
  obtain token where t: "get_auth_token srv sent = (token, sent @ [Login])"
    using get_auth_token_sent [of srv sent] by (cases "get_auth_token srv sent") simp
  with assms(1) have "truthy token" by simp
  with t assms(2) show ?thesis
    by (simp add: tampered_upload_demo_def post_file_def read_all_def BytesIO_def post_def)
qed


lemma token_ok: "srv [Login] = ok_with_token \<Longrightarrow> get_auth_token srv [] = (JStr ''t'', [Login])"
  by (simp add: get_auth_token_def post_def ok_with_token_def response_json_def)





lemma mitm_wrong_key_unfold:
  assumes "truthy (fst (get_auth_token srv sent))"
  shows "mitm_wrong_key srv sent =
     (let sent2 = sent @ [Login, HandshakeInit (b64encode fake_key_bytes)] in
      case srv sent2 of
        Inl e \<Rightarrow> (False, sent2)
      | Inr response \<Rightarrow>
          (case json_or_empty response of
             Inl e \<Rightarrow> (False, sent2)
           | Inr response_data \<Rightarrow>
               if status_code response = 200 then
                 (case py_get response_data ''handshakeId'' JNull of
                    Inl e \<Rightarrow> (False, sent2)
                  | Inr handshake_id \<Rightarrow>
                      if truthy handshake_id then
                        ((case andthen (srv (sent2 @ [HandshakeValidate handshake_id])) validate_inspect of
                            Inl e \<Rightarrow> False
                          | Inr passed \<Rightarrow> passed), sent2 @ [HandshakeValidate handshake_id])
                      else (False, sent2))
               else (True, sent2)))"
proof -
  obtain token where t: "get_auth_token srv sent = (token, sent @ [Login])"
    using get_auth_token_sent [of srv sent] by (cases "get_auth_token srv sent") simp
  with assms have "truthy token" by simp
  with t show ?thesis
    by (simp add: mitm_wrong_key_def post_def Let_def split: sum.splits)
qed





lemma replay_inspect_ok:
  assumes "replay_body_ok r"
  shows "\<exists>b. replay_inspect r = Inr b"
proof -
  from assms obtain kvs where data: "json_or_empty r = Inr (JObj kvs)"
    and err: "(case map_of kvs ''error'' of None \<Rightarrow> True | Some (JStr s) \<Rightarrow> True | Some _ \<Rightarrow> False)"
    by (cases "body_text r")
       (auto simp: replay_body_ok_def json_or_empty_cases split: json.splits)
  from err obtain s where "py_get (JObj kvs) ''error'' (JStr []) = Inr (JStr s)"
    by (auto split: option.splits json.splits)
  with data show ?thesis by (simp add: replay_inspect_def)
qed

lemma post_file_unfold:
  "post_file srv filename fp sent =
     (srv (sent @ [Upload filename (drop (tell fp) (getvalue fp))]),
      fp\<lparr>tell := length (getvalue fp)\<rparr>,
      sent @ [Upload filename (drop (tell fp) (getvalue fp))])"
  by (simp add: post_file_def read_all_def post_def)

lemma replay_loop_Suc:
  "replay_loop srv (Suc n) fp sent =
     (let sent' = sent @ [Upload ''replay_attack.txt'' (drop (tell fp) (getvalue fp))] in
      case andthen (srv sent') replay_inspect of
        Inl e \<Rightarrow> (Inl e, sent')
      | Inr detected \<Rightarrow>
          if detected then (Inr True, sent')
          else replay_loop srv n (fp\<lparr>tell := length (getvalue fp)\<rparr>) sent')"
  by (simp add: post_file_unfold Let_def)


lemma replay_loop_lenient:
  assumes "\<forall>h. \<exists>r. srv h = Inr r \<and> replay_body_ok r"
  shows "\<exists>b. fst (replay_loop srv n fp sent) = Inr b"
proof (induction n arbitrary: fp sent)
  case 0
  then show ?case by auto
next
  case (Suc n)
  let ?u = "Upload ''replay_attack.txt'' (drop (tell fp) (getvalue fp))"
  from assms obtain r where r: "srv (sent @ [?u]) = Inr r" "replay_body_ok r" by blast
  then obtain b where b: "replay_inspect r = Inr b" using replay_inspect_ok by blast
  show ?case
    using r(1) b Suc.IH [of "fp\<lparr>tell := length (getvalue fp)\<rparr>" "sent @ [?u]"]
    by (cases b) (auto simp: replay_loop_Suc simp del: replay_loop.simps)
qed




lemma replay_attack_demo_unfold:
  assumes "truthy (fst (get_auth_token srv sent))"
  shows "replay_attack_demo srv sent =
     (let sent2 = sent @ [Login, Upload ''initial_upload.txt'' test_content] in
      case srv sent2 of
        Inl e \<Rightarrow> (False, sent2)
      | Inr r \<Rightarrow>
          ((case fst (replay_loop srv 3 (BytesIO test_content) sent2) of
              Inl e \<Rightarrow> False | Inr detected \<Rightarrow> True),
           snd (replay_loop srv 3 (BytesIO test_content) sent2)))"
proof -
  obtain token where t: "get_auth_token srv sent = (token, sent @ [Login])"
    using get_auth_token_sent [of srv sent] by (cases "get_auth_token srv sent") simp
  with assms have "truthy token" by simp
  with t show ?thesis
    by (simp add: replay_attack_demo_def post_file_unfold BytesIO_def Let_def
        split: sum.splits prod.splits del: replay_loop.simps)
qed






lemma replay_not_named:
  "replay_inspect \<lparr>status_code = 200, body_text = JsonText (JObj [])\<rparr> = Inr False"
  by (simp add: replay_inspect_def json_or_empty_cases)

lemma srv_accepts_upload_readable: "\<exists>r. srv_accepts_upload h = Inr r \<and> replay_body_ok r"
  by (cases "last h")
     (simp_all add: srv_accepts_upload_def ok_with_token_def reply_def replay_body_ok_def)



text \<open>
  On a server that never names the replay all three replays are sent; the second and
  the third read the file object of the first, which is already at its end.
\<close>

lemma replay_stream_exhausted:
  "replay_attack_demo srv_accepts_upload [] =
     (True, [Login, Upload ''initial_upload.txt'' test_content,
             Upload ''replay_attack.txt'' test_content,
             Upload ''replay_attack.txt'' [], Upload ''replay_attack.txt'' []])"
proof -
  have auth: "truthy (fst (get_auth_token srv_accepts_upload []))"
    using token_ok [of srv_accepts_upload] by (simp add: srv_accepts_upload_def)
  have up2: "srv_accepts_upload [Login, Upload ''initial_upload.txt'' test_content] = reply 200 []"
    by (simp add: srv_accepts_upload_def)
  have loop: "replay_loop srv_accepts_upload 3 (BytesIO test_content) sent
     = (Inr False, sent @ [Upload ''replay_attack.txt'' test_content,
             Upload ''replay_attack.txt'' [], Upload ''replay_attack.txt'' []])" for sent
    unfolding numeral_3_eq_3 replay_loop_Suc
    by (simp add: BytesIO_def srv_accepts_upload_def reply_def replay_not_named Let_def)
  show ?thesis
    unfolding replay_attack_demo_unfold [OF auth]
    by (simp add: up2 reply_def loop del: replay_loop.simps)
qed

lemma bruteforce_handshake_unfold:
  assumes "truthy (fst (get_auth_token srv sent))"
  shows "bruteforce_handshake srv urandom attempts sent =
     (let c = fst (bruteforce_loop srv urandom attempts (sent @ [Login])) in
      (real (failed_count c) > real attempts * (3/10) \<or> suspicious_count c > 0,
       snd (bruteforce_loop srv urandom attempts (sent @ [Login]))))"
proof -
  obtain token where t: "get_auth_token srv sent = (token, sent @ [Login])"
    using get_auth_token_sent [of srv sent] by (cases "get_auth_token srv sent") simp
  with assms have "truthy token" by simp
  with t show ?thesis
    by (simp add: bruteforce_handshake_def Let_def split_beta)
qed

lemma bruteforce_pass_criterion:
  assumes "truthy (fst (get_auth_token srv sent))"
  shows "fst (bruteforce_handshake srv urandom 50 sent) \<longleftrightarrow>
     real (failed_count (fst (bruteforce_loop srv urandom 50 (sent @ [Login])))) / 50 > 3/10
     \<or> suspicious_count (fst (bruteforce_loop srv urandom 50 (sent @ [Login]))) \<ge> 1"
  unfolding bruteforce_handshake_unfold [OF assms] by (auto simp: Let_def)

lemma bruteforce_loop_sent:
  "length (snd (fold (\<lambda>i. bruteforce_attempt srv (urandom i)) xs st)) \<ge> length (snd st) + length xs"
proof (induction xs arbitrary: st)
  case Nil
  then show ?case by simp
next
  case (Cons x xs)
  have "length (snd (bruteforce_attempt srv (urandom x) st)) \<ge> length (snd st) + 1"
    by (cases st) (auto simp: bruteforce_attempt_def post_def Let_def split: sum.splits)
  with Cons.IH [of "bruteforce_attempt srv (urandom x) st"] show ?case by simp
qed

lemma attempt_without_id:
  "bruteforce_attempt srv_no_handshake_id key (c, sent) = (c, sent @ [HandshakeInit (b64encode key)])"
  by (simp add: bruteforce_attempt_def post_def srv_no_handshake_id_def ok_with_token_def
      response_json_def Let_def)

lemma fold_without_id:
  "fold (\<lambda>i. bruteforce_attempt srv_no_handshake_id (urandom i)) xs (c, sent)
     = (c, sent @ map (\<lambda>i. HandshakeInit (b64encode (urandom i))) xs)"
  by (induction xs arbitrary: sent) (simp_all add: attempt_without_id)

text \<open>
  Claim C7.  The brute-force scenario issues 50 handshake attempts, classifies each as
  success, failure or suspicious, and passes exactly when more than 30 percent failed
  or at least one was suspicious.  The pass criterion is \<open>bruteforce_pass_criterion\<close>
  above.  The classification misses a case: an attempt whose init is answered with
  status 200 but without a handshake id touches no counter.  On a server that answers
  so every time, all 50 attempts are sent and the three counters are still 0.
\<close>

theorem bruteforce_attempt_left_unclassified:
  "bruteforce_loop srv_no_handshake_id urandom 50 [Login]
     = (\<lparr>failed_count = 0, success_count = 0, suspicious_count = 0\<rparr>,
        Login # map (\<lambda>i. HandshakeInit (b64encode (urandom i))) [0..<50])
 \<and> map_sum id status_code (srv_no_handshake_id [Login, HandshakeInit (b64encode (urandom 0))]) = Inr 200
 \<and> \<not> fst (bruteforce_handshake srv_no_handshake_id urandom 50 [])"
proof -
  have auth: "truthy (fst (get_auth_token srv_no_handshake_id []))"
    using token_ok [of srv_no_handshake_id] by (simp add: srv_no_handshake_id_def)
  have loop: "bruteforce_loop srv_no_handshake_id urandom 50 [Login]
     = (\<lparr>failed_count = 0, success_count = 0, suspicious_count = 0\<rparr>,
        Login # map (\<lambda>i. HandshakeInit (b64encode (urandom i))) [0..<50])"
    unfolding bruteforce_loop_def fold_without_id by simp
  have "\<not> fst (bruteforce_handshake srv_no_handshake_id urandom 50 [])"
    unfolding bruteforce_handshake_unfold [OF auth] using loop by (simp add: Let_def)
  with loop show ?thesis by (simp add: srv_no_handshake_id_def ok_with_token_def)
qed


lemma token_accepts: "get_auth_token srv_accepts_upload sent = (JStr ''t'', sent @ [Login])"
  by (simp add: get_auth_token_def post_def srv_accepts_upload_def ok_with_token_def
      response_json_def)

lemma accepts_tampered: "\<not> fst (tampered_upload_demo srv_accepts_upload sent)"
proof -
  have auth: "truthy (fst (get_auth_token srv_accepts_upload sent))"
    by (simp add: token_accepts)
  obtain d where d: "flip_bytes [10..<20] legitimate_data = Inr d"
    using tampered_data by blast
  show ?thesis
    unfolding tampered_upload_demo_unfold [OF auth d]
    by (simp add: srv_accepts_upload_def reply_def tamper_inspect_def json_or_empty_cases)
qed

lemma rejects_forged_key: "fst (mitm_wrong_key srv_accepts_upload sent)"
proof -
  have auth: "truthy (fst (get_auth_token srv_accepts_upload sent))"
    by (simp add: token_accepts)
  show ?thesis
    unfolding mitm_wrong_key_unfold [OF auth]
    by (simp add: srv_accepts_upload_def reply_def json_or_empty_cases Let_def)
qed

lemma handles_replay: "fst (replay_attack_demo srv_accepts_upload sent)"
proof -
  have auth: "truthy (fst (get_auth_token srv_accepts_upload sent))"
    by (simp add: token_accepts)
  have "\<forall>h. \<exists>r. srv_accepts_upload h = Inr r \<and> replay_body_ok r"
    using srv_accepts_upload_readable by blast
  then obtain b where "fst (replay_loop srv_accepts_upload 3 (BytesIO test_content)
      (sent @ [Login, Upload ''initial_upload.txt'' test_content])) = Inr b"
    using replay_loop_lenient by blast
  then show ?thesis
    unfolding replay_attack_demo_unfold [OF auth]
    by (simp add: srv_accepts_upload_def reply_def Let_def del: replay_loop.simps)
qed

lemma attempt_rejected:
  "bruteforce_attempt srv_accepts_upload key (c, sent)
     = (c\<lparr>failed_count := failed_count c + 1\<rparr>, sent @ [HandshakeInit (b64encode key)])"
  by (simp add: bruteforce_attempt_def post_def srv_accepts_upload_def reply_def Let_def)

lemma fold_rejected:
  "fst (fold (\<lambda>i. bruteforce_attempt srv_accepts_upload (urandom i)) xs (c, sent))
     = c\<lparr>failed_count := failed_count c + length xs\<rparr>"
  by (induction xs arbitrary: c sent) (simp_all add: attempt_rejected)

lemma resists_bruteforce: "fst (bruteforce_handshake srv_accepts_upload urandom 50 sent)"
proof -
  have auth: "truthy (fst (get_auth_token srv_accepts_upload sent))"
    by (simp add: token_accepts)
  show ?thesis
    unfolding bruteforce_handshake_unfold [OF auth] bruteforce_loop_def fold_rejected
    by (simp add: Let_def)
qed

text \<open>
  Claim C4.  The script counts the scenarios that passed, but the count is only
  printed: on a server that accepts the tampered upload the tamper scenario fails,
  the count is 3 of 4, and the exit status is 0, which \<open>run_test\<close> reads as a pass.
\<close>

theorem failed_scenario_exits_zero:
  "fst (attack_simulator_main srv_accepts_upload urandom)
     = \<lparr>results = [(''MITM Tampered Ciphertext'', False), (''MITM Wrong Key'', True),
                   (''Replay Attack'', True), (''Brute Force Handshake'', True)],
        passed_n = 3, total_n = 4, exit_status = 0\<rparr>
 \<and> fst (run_test (\<lambda>l. Exited (exit_status (fst (attack_simulator_main srv_accepts_upload urandom))))
        ''attack_simulator.py'' [''client/client.py'']) = (True, 0)"
proof -
  have summary: "fst (attack_simulator_main srv_accepts_upload urandom)
     = \<lparr>results = [(''MITM Tampered Ciphertext'', False), (''MITM Wrong Key'', True),
                   (''Replay Attack'', True), (''Brute Force Handshake'', True)],
        passed_n = 3, total_n = 4, exit_status = 0\<rparr>"
    by (simp add: attack_simulator_main_def Let_def split_beta accepts_tampered
        rejects_forged_key handles_replay resists_bruteforce)
  then show ?thesis by (simp add: run_test_def Let_def)
qed

end
